theory Spec2Isabelle
  imports Complex_Main "HOL-Library.Multiset"
begin

section \<open>Python values used by app.py\<close>

text \<open>
  An instance of a subclass of Python's \<open>Exception\<close>, with the message that \<open>str(e)\<close>
  gives. Exits that are not \<open>Exception\<close>s (a keyboard interrupt, interpreter exit) are
  outside the model: no \<open>except Exception\<close> clause of the program sees them.
\<close>

datatype exc =
    ImportError string
  | FileNotFoundError string
  | IndexError string
  | OtherException string

fun str_exc :: "exc \<Rightarrow> string" where
  "str_exc (ImportError m) = m"
| "str_exc (FileNotFoundError m) = m"
| "str_exc (IndexError m) = m"
| "str_exc (OtherException m) = m"

text \<open>\<open>xs[i]\<close> on a Python list: a negative index counts from the end, anything else
  outside the list raises \<open>IndexError\<close>.\<close>

definition py_getitem :: "'a list \<Rightarrow> int \<Rightarrow> exc + 'a" where
  "py_getitem xs i =
     (if 0 \<le> i \<and> i < int (length xs) then Inr (xs ! nat i)
      else if i < 0 \<and> - int (length xs) \<le> i then Inr (xs ! nat (int (length xs) + i))
      else Inl (IndexError ''list index out of range''))"

text \<open>\<open>str(i)\<close> for a Python int, as the f-string \<open>f"Unknown ({class_id})"\<close> formats it.\<close>

definition decimal_digits :: string where
  "decimal_digits = ''0123456789''"

function str_nat :: "nat \<Rightarrow> string" where
  "str_nat n =
     (if n < 10 then [decimal_digits ! n]
      else str_nat (n div 10) @ [decimal_digits ! (n mod 10)])"
  by pat_completeness auto
termination
  by (relation "measure id") auto

definition str_int :: "int \<Rightarrow> string" where
  "str_int i = (if i < 0 then CHR ''-'' # str_nat (nat (- i)) else str_nat (nat i))"

text \<open>
  \<open>sorted(xs, key=key, reverse=reverse)\<close>. Python's sort is stable; with
  \<open>reverse=True\<close> the list is reversed, sorted stably in ascending key order and
  reversed again, so that equal keys keep their input order in both directions.
  \<open>sort_key\<close> is the stable insertion sort of the list library.
\<close>

definition py_sorted :: "('a \<Rightarrow> 'k::linorder) \<Rightarrow> bool \<Rightarrow> 'a list \<Rightarrow> 'a list" where
  "py_sorted key reverse xs =
     (if reverse then rev (sort_key key (rev xs)) else sort_key key xs)"


section \<open>The file system\<close>

text \<open>
  The files that exist, with their contents. Only regular files are modelled.
  \<open>os.unlink\<close> removes an existing file and raises \<open>FileNotFoundError\<close> on a missing
  one; permission faults of the operating system are not modelled.
\<close>

type_synonym path = string
type_synonym bytes = "char list"
type_synonym filesystem = "path \<rightharpoonup> bytes"

definition os_path_exists :: "path \<Rightarrow> filesystem \<Rightarrow> bool" where
  "os_path_exists p fs = (fs p \<noteq> None)"

definition os_unlink :: "path \<Rightarrow> filesystem \<Rightarrow> (exc + unit) \<times> filesystem" where
  "os_unlink p fs =
     (case fs p of
        None \<Rightarrow> (Inl (FileNotFoundError p), fs)
      | Some _ \<Rightarrow> (Inr (), fs(p := None)))"


section \<open>load\_model\<close>

text \<open>
  What \<open>load_model\<close> reads from its surroundings: the flag set by the guarded import at
  the top of the module, the file system, and the constructor \<open>YOLO(model_path)\<close> of the
  detection library, which gets the path and the file's contents and either raises or
  returns a model.
\<close>

record 'm load_env =
  ULTRALYTICS_AVAILABLE :: bool
  files :: filesystem
  YOLO :: "path \<Rightarrow> bytes \<Rightarrow> exc + 'm"

definition load_model_try :: "'m load_env \<Rightarrow> path \<Rightarrow> exc + ('m option \<times> string option)" where
  "load_model_try env model_path =
     (if \<not> ULTRALYTICS_AVAILABLE env then
        Inl (ImportError ''Library 'ultralytics' tidak tersedia.'')
      else
        (case files env model_path of
           None \<Rightarrow> Inl (FileNotFoundError (''File model tidak ditemukan: '' @ model_path))
         | Some content \<Rightarrow>
             (case YOLO env model_path content of
                Inl e \<Rightarrow> Inl e
              | Inr model \<Rightarrow> Inr (Some model, None))))"

definition load_model :: "'m load_env \<Rightarrow> path \<Rightarrow> 'm option \<times> string option" where
  "load_model env model_path =
     (case load_model_try env model_path of
        Inr r \<Rightarrow> r
      | Inl e \<Rightarrow> (None, Some (str_exc e)))"

text \<open>The state of the cache: the table of stored results, and a log \<open>loads\<close> of the
  paths the body of \<open>load_model\<close> has run for, in order.\<close>

record 'm cache_state =
  cache :: "path \<rightharpoonup> ('m option \<times> string option)"
  loads :: "path list"

definition empty_cache :: "'m cache_state" where
  "empty_cache = \<lparr>cache = Map.empty, loads = []\<rparr>"

text \<open>
  Modelled from the spec: the decorator \<open>@st.cache_resource\<close> on \<open>load_model\<close> belongs to
  the Streamlit library and is not under src/. Following the spec's words (the load is
  ``cached/memoized per distinct path for the process lifetime''), it is a table from
  the argument to the value the body returned: a call whose argument is in the table
  returns the stored value and does not run the body; any other call runs the body once
  and stores what it returned.
\<close>

definition cached_load_model ::
  "'m load_env \<Rightarrow> path \<Rightarrow> 'm cache_state \<Rightarrow> ('m option \<times> string option) \<times> 'm cache_state" where
  "cached_load_model env model_path s =
     (case cache s model_path of
        Some r \<Rightarrow> (r, s)
      | None \<Rightarrow>
          (let r = load_model env model_path
           in (r, \<lparr>cache = (cache s)(model_path \<mapsto> r), loads = loads s @ [model_path]\<rparr>)))"

text \<open>A process lifetime: a sequence of calls, each in the surroundings of its moment.\<close>

fun run_loads :: "('m load_env \<times> path) list \<Rightarrow> 'm cache_state \<Rightarrow> 'm cache_state" where
  "run_loads [] s = s"
| "run_loads ((env, p) # calls) s = run_loads calls (snd (cached_load_model env p s))"


section \<open>extract\_frame\_from\_video\<close>

text \<open>
  An opened \<open>cv2.VideoCapture\<close>: whether \<open>isOpened()\<close> holds, the value of
  \<open>int(cap.get(cv2.CAP_PROP_FRAME_COUNT))\<close> (the conversion raises on a count that is
  not a finite number), and what \<open>cap.set(cv2.CAP_PROP_POS_FRAMES, k)\<close> followed by
  \<open>cap.read()\<close> gives: a frame when \<open>ret\<close> is true, nothing when it is false.
\<close>

record 'f capture =
  isOpened :: bool
  frame_count :: "exc + int"
  read_frame :: "int \<Rightarrow> exc + 'f option"

text \<open>The uploaded file object, by what \<open>video_file.getvalue()\<close> gives: the bytes, or an
  exception (the buffer was closed).\<close>

record uploaded_file =
  getvalue :: "exc + bytes"

text \<open>
  The surroundings of one call: \<open>tempfile.NamedTemporaryFile(delete=False)\<close> creates an
  empty file and gives its name, or raises; \<open>tmp.write\<close> may raise (a full disk);
  \<open>cv2.VideoCapture\<close> decodes the contents of the file at the path it is given;
  \<open>to_image\<close> is \<open>Image.fromarray(cv2.cvtColor(frame, cv2.COLOR_BGR2RGB))\<close>.
\<close>

record ('f, 'i) world =
  NamedTemporaryFile :: "exc + path"
  tmp_write :: "bytes \<Rightarrow> exc option"
  VideoCapture :: "bytes option \<Rightarrow> exc + 'f capture"
  to_image :: "'f \<Rightarrow> exc + 'i"

type_synonym 'i frame_result = "'i option \<times> int \<times> string option"

text \<open>\<open>os.unlink(video_path)\<close> followed by \<open>return r\<close>, inside the \<open>try\<close> block.\<close>

definition unlink_return ::
  "path \<Rightarrow> filesystem \<Rightarrow> 'r \<Rightarrow> (exc + 'r) \<times> path \<times> filesystem" where
  "unlink_return video_path fs r =
     (case os_unlink video_path fs of
        (Inl e, fs') \<Rightarrow> (Inl e, video_path, fs')
      | (Inr _, fs') \<Rightarrow> (Inr r, video_path, fs'))"

text \<open>
  The body of the \<open>try\<close> block. It gives the value returned or the exception raised, the
  value of the variable \<open>video_path\<close> at that moment (it is assigned after the write, as
  the last statement of the \<open>with\<close> block) and the file system.
\<close>

definition extract_try ::
  "('f, 'i) world \<Rightarrow> uploaded_file \<Rightarrow> int \<Rightarrow> filesystem
     \<Rightarrow> (exc + 'i frame_result) \<times> path \<times> filesystem" where
  "extract_try w video_file frame_number fs =
     (case NamedTemporaryFile w of
        Inl e \<Rightarrow> (Inl e, [], fs)
      | Inr tmp \<Rightarrow>
          (let fs1 = fs(tmp \<mapsto> []) in
           case getvalue video_file of
             Inl e \<Rightarrow> (Inl e, [], fs1)
           | Inr data \<Rightarrow>
          (case tmp_write w data of
             Some e \<Rightarrow> (Inl e, [], fs1)
           | None \<Rightarrow>
               (let fs2 = fs1(tmp \<mapsto> data); video_path = tmp in
                case VideoCapture w (fs2 video_path) of
                  Inl e \<Rightarrow> (Inl e, video_path, fs2)
                | Inr cap \<Rightarrow>
                    if \<not> isOpened cap then
                      unlink_return video_path fs2 (None, 0, Some ''Gagal membuka file video.'')
                    else
                      (case frame_count cap of
                         Inl e \<Rightarrow> (Inl e, video_path, fs2)
                       | Inr total_frames \<Rightarrow>
                           if total_frames = 0 then
                             unlink_return video_path fs2
                               (None, 0, Some ''Video tidak memiliki frame.'')
                           else
                             (case read_frame cap (min frame_number (total_frames - 1)) of
                                Inl e \<Rightarrow> (Inl e, video_path, fs2)
                              | Inr r \<Rightarrow>
                                  (case os_unlink video_path fs2 of
                                     (Inl e, fs3) \<Rightarrow> (Inl e, video_path, fs3)
                                   | (Inr _, fs3) \<Rightarrow>
                                       (case r of
                                          Some frame \<Rightarrow>
                                            (case to_image w frame of
                                               Inl e \<Rightarrow> (Inl e, video_path, fs3)
                                             | Inr img \<Rightarrow>
                                                 (Inr (Some img, total_frames, None),
                                                  video_path, fs3))
                                        | None \<Rightarrow>
                                            (Inr (None, total_frames,
                                                  Some ''Gagal mengekstrak frame yang dipilih.''),
                                             video_path, fs3)))))))))"

text \<open>
  The whole function: the \<open>try\<close> block and its \<open>except Exception\<close> handler. \<open>Inl\<close> is an
  exception that leaves the function.
\<close>

definition extract_frame_from_video ::
  "('f, 'i) world \<Rightarrow> uploaded_file \<Rightarrow> int \<Rightarrow> filesystem
     \<Rightarrow> (exc + 'i frame_result) \<times> filesystem" where
  "extract_frame_from_video w video_file frame_number fs =
     (case extract_try w video_file frame_number fs of
        (Inr r, video_path, fs') \<Rightarrow> (Inr r, fs')
      | (Inl e, video_path, fs') \<Rightarrow>
          (let msg = ''Error saat memproses video: '' @ str_exc e in
           if video_path \<noteq> [] \<and> os_path_exists video_path fs' then
             (case os_unlink video_path fs' of
                (Inl e', fs'') \<Rightarrow> (Inl e', fs'')
              | (Inr _, fs'') \<Rightarrow> (Inr (None, 0, Some msg), fs''))
           else (Inr (None, 0, Some msg), fs')))"


section \<open>The analysis and the display of its result in main\<close>

text \<open>
  One box of \<open>result.boxes\<close>, by the two values the loop reads from it:
  \<open>int(box.cls[0])\<close> and \<open>float(box.conf[0])\<close>. A confidence is a real number: the floats
  a detector gives as scores are ordered as the reals they denote.
\<close>

record raw_box =
  cls :: int
  conf :: real


text \<open>The dictionary \<open>{'class': class_name, 'confidence': confidence}\<close>.\<close>

record detection =
  class_name :: string
  confidence :: real

definition class_names :: "string list" where
  "class_names = [''Glioma'', ''Meningioma'', ''No Tumor'', ''Pituitary'']"

definition class_name_of :: "int \<Rightarrow> exc + string" where
  "class_name_of class_id =
     (if class_id < int (length class_names) then py_getitem class_names class_id
      else Inr (''Unknown ('' @ str_int class_id @ '')''))"

text \<open>The loop over \<open>result.boxes\<close>, with the list \<open>detections\<close> it appends to.\<close>

fun collect_detections :: "raw_box list \<Rightarrow> detection list \<Rightarrow> exc + detection list" where
  "collect_detections [] detections = Inr detections"
| "collect_detections (box # rest) detections =
     (case class_name_of (cls box) of
        Inl e \<Rightarrow> Inl e
      | Inr name \<Rightarrow>
          collect_detections rest
            (detections @ [\<lparr>class_name = name, confidence = conf box\<rparr>]))"



text \<open>The list the result column enumerates:
  \<open>sorted(detections, key=lambda x: x['confidence'], reverse=True)\<close>.\<close>

definition detections_sorted :: "detection list \<Rightarrow> detection list" where
  "detections_sorted detections = py_sorted confidence True detections"


section \<open>Invariant of the cache and sample inputs\<close>

text \<open>The body has run exactly once for each path in the table, and for no other.\<close>

definition cache_inv :: "'m cache_state \<Rightarrow> bool" where
  "cache_inv s = (distinct (loads s) \<and> set (loads s) = dom (cache s))"

text \<open>
  Sample surroundings for concrete runs. The frames of \<open>three_frames\<close> are numbered by
  the position the decoder was asked for, and the conversion to an image keeps the
  number, so that a result shows which position was read.
\<close>

definition three_frames :: "int capture" where
  "three_frames = \<lparr>isOpened = True, frame_count = Inr 3, read_frame = (\<lambda>k. Inr (Some k))\<rparr>"

definition no_frames :: "int capture" where
  "no_frames = \<lparr>isOpened = True, frame_count = Inr 0, read_frame = (\<lambda>k. Inr None)\<rparr>"

definition world_of :: "int capture \<Rightarrow> exc option \<Rightarrow> (int, int) world" where
  "world_of cap write_outcome =
     \<lparr>NamedTemporaryFile = Inr ''/tmp/tmpk3v9.mp4'', tmp_write = (\<lambda>_. write_outcome),
      VideoCapture = (\<lambda>_. Inr cap), to_image = Inr\<rparr>"

definition sample_upload :: uploaded_file where
  "sample_upload = \<lparr>getvalue = Inr ''video bytes''\<rparr>"

text \<open>A decoder of three frames that answers a position below zero with the first
  frame.\<close>

definition frames_from_zero :: "int capture" where
  "frames_from_zero =
     \<lparr>isOpened = True, frame_count = Inr 3, read_frame = (\<lambda>k. Inr (Some (max 0 k)))\<rparr>"


text \<open>Surroundings of \<open>load_model\<close>: no file at all; a file \<open>best.pt\<close> that loads.\<close>

definition env_missing :: "unit load_env" where
  "env_missing = \<lparr>ULTRALYTICS_AVAILABLE = True, files = Map.empty, YOLO = (\<lambda>p c. Inr ())\<rparr>"

definition env_present :: "unit load_env" where
  "env_present =
     \<lparr>ULTRALYTICS_AVAILABLE = True, files = [''best.pt'' \<mapsto> ''weights''], YOLO = (\<lambda>p c. Inr ())\<rparr>"


section \<open>The detections shown are sorted\<close>

lemma py_sorted_reverse_sorted:
  "sorted_wrt (\<lambda>a b. key b \<le> key a) (py_sorted key True xs)"
proof -
  have "sorted (map key (sort_key key (rev xs)))"
    by (rule sorted_sort_key)
  then have "sorted_wrt (\<lambda>a b. key a \<le> key b) (sort_key key (rev xs))"
    by (simp add: sorted_map)
  then show ?thesis
    by (simp add: py_sorted_def sorted_wrt_rev)
qed

lemma py_sorted_reverse_stable:
  "filter (\<lambda>x. key x = k) (py_sorted key True xs) = filter (\<lambda>x. key x = k) xs"
proof -
  have "filter (\<lambda>x. key x = k) (rev (sort_key key (rev xs)))
        = rev (filter (\<lambda>x. key x = k) (sort_key key (rev xs)))"
    by (simp add: rev_filter)
  also have "\<dots> = rev (filter (\<lambda>x. key x = k) (rev xs))"
    by (simp only: sort_key_stable)
  also have "\<dots> = filter (\<lambda>x. key x = k) xs"
    by (simp add: rev_filter)
  finally show ?thesis
    by (simp add: py_sorted_def)
qed

lemma py_sorted_mset: "mset (py_sorted key r xs) = mset xs"
  by (simp add: py_sorted_def)

text \<open>
  C2. The list that the result column enumerates is in order of non-increasing
  confidence; the detections of any one confidence \<open>c\<close> appear in it in the order they had
  in the input; it holds the same detections as the input; and confidences
  \<open>[0.3, 0.9, 0.6]\<close> are shown in the order \<open>[0.9, 0.6, 0.3]\<close>.
\<close>

theorem detections_sorted_descending_stable:
  "sorted_wrt (\<lambda>a b. confidence b \<le> confidence a) (detections_sorted ds)
   \<and> filter (\<lambda>d. confidence d = c) (detections_sorted ds) = filter (\<lambda>d. confidence d = c) ds
   \<and> mset (detections_sorted ds) = mset ds
   \<and> map confidence (detections_sorted
        [\<lparr>class_name = n1, confidence = 0.3\<rparr>, \<lparr>class_name = n2, confidence = 0.9\<rparr>,
         \<lparr>class_name = n3, confidence = 0.6\<rparr>]) = [0.9, 0.6, 0.3]"
proof -
  have example: "map confidence (py_sorted confidence True
        [\<lparr>class_name = n1, confidence = 0.3\<rparr>, \<lparr>class_name = n2, confidence = 0.9\<rparr>,
         \<lparr>class_name = n3, confidence = 0.6\<rparr>]) = [0.9, 0.6, 0.3]"
    by (simp add: py_sorted_def)
  show ?thesis
    unfolding detections_sorted_def
    using py_sorted_reverse_sorted [of confidence ds]
      py_sorted_reverse_stable [of confidence c ds]
      py_sorted_mset [of confidence True ds] example
    by blast
qed


section \<open>Class labels\<close>

lemma class_name_of_known:
  "0 \<le> i \<Longrightarrow> i < 4 \<Longrightarrow> class_name_of i = Inr (class_names ! nat i)"
  by (simp add: class_name_of_def py_getitem_def class_names_def)

lemma class_name_of_unknown:
  "4 \<le> i \<Longrightarrow> class_name_of i = Inr (''Unknown ('' @ str_int i @ '')'')"
  by (simp add: class_name_of_def class_names_def)

lemma class_name_of_nonnegative:
  "0 \<le> i \<Longrightarrow>
   class_name_of i =
     Inr (if i < 4 then class_names ! nat i else ''Unknown ('' @ str_int i @ '')'')"
  by (cases "i < 4") (simp_all add: class_name_of_known class_name_of_unknown)

lemma collect_detections_nonnegative:
  "\<forall>b \<in> set bs. 0 \<le> cls b \<Longrightarrow>
   collect_detections bs acc =
     Inr (acc @ map (\<lambda>b. \<lparr>class_name =
                           (if cls b < 4 then class_names ! nat (cls b)
                            else ''Unknown ('' @ str_int (cls b) @ '')''),
                         confidence = conf b\<rparr>) bs)"
proof (induction bs arbitrary: acc)
  case Nil
  then show ?case by simp
next
  case (Cons b bs)
  then have "0 \<le> cls b" by simp
  then show ?case
    using Cons by (simp add: class_name_of_nonnegative)
qed

text \<open>
  C4. The class index of a raw detection is \<open>int(box.cls[0])\<close> of a box the detector
  returned, an index into the detector's classes and so not negative. For every batch
  of such detections the loop succeeds and gives one record per detection, in order:
  its label is the known label at the index when the index is in range of the four
  labels, and exactly \<open>Unknown (<index>)\<close> when it is not; class index 7 gives
  \<open>Unknown (7)\<close>.
\<close>

theorem class_label_of_nonnegative_index:
  assumes "\<forall>b \<in> set bs. 0 \<le> cls b"
  shows "collect_detections bs [] =
           Inr (map (\<lambda>b. \<lparr>class_name =
                              (if cls b < 4 then class_names ! nat (cls b)
                               else ''Unknown ('' @ str_int (cls b) @ '')''),
                            confidence = conf b\<rparr>) bs)
         \<and> class_name_of 7 = Inr ''Unknown (7)''"
proof -
  have "class_name_of 7 = Inr ''Unknown (7)''"
    by (simp add: class_name_of_def class_names_def str_int_def decimal_digits_def)
  then show ?thesis
    using collect_detections_nonnegative [OF assms, of "[]"] by simp
qed

theorem class_label_of_nonnegative_index_witness:
  "collect_detections [\<lparr>cls = 1, conf = 0.9\<rparr>, \<lparr>cls = 7, conf = 0.4\<rparr>, \<lparr>cls = 12, conf = 0.3\<rparr>] [] =
     Inr [\<lparr>class_name = ''Meningioma'', confidence = 0.9\<rparr>,
          \<lparr>class_name = ''Unknown (7)'', confidence = 0.4\<rparr>,
          \<lparr>class_name = ''Unknown (12)'', confidence = 0.3\<rparr>]"
  using class_label_of_nonnegative_index
    [of "[\<lparr>cls = 1, conf = 0.9\<rparr>, \<lparr>cls = 7, conf = 0.4\<rparr>, \<lparr>cls = 12, conf = 0.3\<rparr>]"]
  by (simp add: class_names_def str_int_def decimal_digits_def)


section \<open>Loading the model\<close>

text \<open>
  C6 (amended). For every model path at which no file exists, \<open>load_model\<close> returns no
  model and a message, and no exception leaves it (its result is the pair): the message
  is \<open>File model tidak ditemukan: <path>\<close> when the detection library was imported, and
  the message of the failed import otherwise, since that check comes first.
\<close>

theorem load_model_missing_file:
  assumes "files env model_path = None"
  shows "load_model env model_path =
           (None, Some (if ULTRALYTICS_AVAILABLE env
                        then ''File model tidak ditemukan: '' @ model_path
                        else ''Library 'ultralytics' tidak tersedia.''))"
  using assms by (simp add: load_model_def load_model_try_def)

theorem load_model_missing_file_witness:
  "files env_missing ''best.pt'' = None
   \<and> load_model env_missing ''best.pt'' = (None, Some ''File model tidak ditemukan: best.pt'')"
proof -
  have h: "files env_missing ''best.pt'' = None"
    by (simp add: env_missing_def)
  show ?thesis
    using h load_model_missing_file [OF h] by (simp add: env_missing_def)
qed

text \<open>
  C6 as stated fails when the import of the detection library has failed: for a path
  with no file the message is then the one of the import, not the one of the missing
  model file.
\<close>

theorem load_model_unavailable_counterexample:
  "files (env_missing\<lparr>ULTRALYTICS_AVAILABLE := False\<rparr>) ''best.pt'' = None
   \<and> load_model (env_missing\<lparr>ULTRALYTICS_AVAILABLE := False\<rparr>) ''best.pt''
       = (None, Some ''Library 'ultralytics' tidak tersedia.'')
   \<and> load_model (env_missing\<lparr>ULTRALYTICS_AVAILABLE := False\<rparr>) ''best.pt''
       \<noteq> (None, Some ''File model tidak ditemukan: best.pt'')"
  by (simp add: load_model_def load_model_try_def env_missing_def)

lemma load_model_result:
  "load_model env model_path = (m, err) \<Longrightarrow> (m = None) = (err \<noteq> None)"
  by (auto simp: load_model_def load_model_try_def split: if_splits option.splits sum.splits)


section \<open>The cache of loaded models\<close>

lemma cache_inv_empty: "cache_inv empty_cache"
  by (simp add: cache_inv_def empty_cache_def)

lemma cache_inv_step: "cache_inv s \<Longrightarrow> cache_inv (snd (cached_load_model env p s))"
  by (auto simp: cache_inv_def cached_load_model_def Let_def split: option.splits)

lemma cache_inv_run: "cache_inv s \<Longrightarrow> cache_inv (run_loads calls s)"
  by (induction calls s rule: run_loads.induct) (simp_all add: cache_inv_step)

lemma cache_entry_kept_step:
  "cache s p = Some r \<Longrightarrow> cache (snd (cached_load_model env q s)) p = Some r"
  by (auto simp: cached_load_model_def Let_def split: option.splits)

lemma cache_entry_kept_run:
  "cache s p = Some r \<Longrightarrow> cache (run_loads calls s) p = Some r"
  by (induction calls s rule: run_loads.induct) (simp_all add: cache_entry_kept_step)

lemma cached_load_model_stores:
  "cached_load_model env p s = (r, s') \<Longrightarrow> cache s' p = Some r"
  by (auto simp: cached_load_model_def Let_def split: option.splits)

lemma cached_load_model_hit:
  "cache s p = Some r \<Longrightarrow> cached_load_model env p s = (r, s)"
  by (simp add: cached_load_model_def)

lemma count_list_distinct:
  "distinct xs \<Longrightarrow> count_list xs x = (if x \<in> set xs then 1 else 0)"
  by (induction xs) auto

lemma cache_inv_count:
  "cache_inv s \<Longrightarrow> count_list (loads s) q = (if q \<in> dom (cache s) then 1 else 0)"
  by (simp add: cache_inv_def count_list_distinct)

text \<open>
  C7. Take any process lifetime: calls \<open>before\<close> from the empty cache, then a call with
  path \<open>p\<close> that returns \<open>r\<close> (a model or an error), then any calls \<open>after\<close>, each in
  surroundings of its own. At the end the body of \<open>load_model\<close> has run exactly once for
  \<open>p\<close> and at most once for any path \<open>q\<close>, and a further call with \<open>p\<close>, in whatever
  surroundings, returns the same \<open>r\<close> and changes nothing: it does not run the body
  again. With \<open>r\<close> an error, that is a failure kept and not retried.
\<close>

theorem load_model_memoized:
  assumes "cached_load_model env p (run_loads before empty_cache) = (r, s)"
  shows "count_list (loads (run_loads after s)) p = 1
         \<and> count_list (loads (run_loads after s)) q \<le> 1
         \<and> cached_load_model env' p (run_loads after s) = (r, run_loads after s)"
proof -
  have "cache_inv (run_loads before empty_cache)"
    by (rule cache_inv_run [OF cache_inv_empty])
  then have "cache_inv (snd (cached_load_model env p (run_loads before empty_cache)))"
    by (rule cache_inv_step)
  then have "cache_inv s"
    using assms by simp
  then have inv: "cache_inv (run_loads after s)"
    by (rule cache_inv_run)
  have "cache s p = Some r"
    using assms by (rule cached_load_model_stores)
  then have hit: "cache (run_loads after s) p = Some r"
    by (rule cache_entry_kept_run)
  show ?thesis
    using cache_inv_count [OF inv, of p] cache_inv_count [OF inv, of q] hit
      cached_load_model_hit [OF hit, of env']
    by auto
qed

text \<open>
  A run of it: the first call finds no file and fails; the file then appears and two
  more calls are made, one of them with another path; a last call with \<open>best.pt\<close>, the
  file being there, still returns the failure, and the body ran once for \<open>best.pt\<close>.
\<close>

theorem load_model_memoized_witness:
  "cached_load_model env_missing ''best.pt'' (run_loads [] empty_cache)
     = ((None, Some ''File model tidak ditemukan: best.pt''),
        \<lparr>cache = [''best.pt'' \<mapsto> (None, Some ''File model tidak ditemukan: best.pt'')],
         loads = [''best.pt'']\<rparr>)
   \<and> count_list
         (loads (run_loads [(env_present, ''best.pt''), (env_present, ''other.pt'')]
            \<lparr>cache = [''best.pt'' \<mapsto> (None, Some ''File model tidak ditemukan: best.pt'')],
             loads = [''best.pt'']\<rparr>)) ''best.pt'' = 1
   \<and> fst (cached_load_model env_present ''best.pt''
         (run_loads [(env_present, ''best.pt''), (env_present, ''other.pt'')]
            \<lparr>cache = [''best.pt'' \<mapsto> (None, Some ''File model tidak ditemukan: best.pt'')],
             loads = [''best.pt'']\<rparr>))
       = (None, Some ''File model tidak ditemukan: best.pt'')"
proof -
  have h: "cached_load_model env_missing ''best.pt'' (run_loads [] empty_cache)
     = ((None, Some ''File model tidak ditemukan: best.pt''),
        \<lparr>cache = [''best.pt'' \<mapsto> (None, Some ''File model tidak ditemukan: best.pt'')],
         loads = [''best.pt'']\<rparr>)"
    by (simp add: cached_load_model_def empty_cache_def load_model_def load_model_try_def
        env_missing_def Let_def)
  show ?thesis
    using h load_model_memoized [OF h,
        of "[(env_present, ''best.pt''), (env_present, ''other.pt'')]" "''best.pt''" env_present]
    by simp
qed


section \<open>Extracting a frame\<close>

lemma os_unlink_existing: "fs p = Some c \<Longrightarrow> os_unlink p fs = (Inr (), fs(p := None))"
  by (simp add: os_unlink_def)

lemma unlink_return_existing:
  "fs p = Some c \<Longrightarrow> unlink_return p fs r = (Inr r, p, fs(p := None))"
  by (simp add: unlink_return_def os_unlink_existing)

text \<open>What the \<open>try\<close> block gives for a video that was written and opened.\<close>

lemma extract_try_opened:
  assumes "NamedTemporaryFile w = Inr tmp" "getvalue video_file = Inr data"
    "tmp_write w data = None" "VideoCapture w (Some data) = Inr cap" "isOpened cap"
    "frame_count cap = Inr total_frames"
  shows "extract_try w video_file n fs =
     (if total_frames = 0 then
        (Inr (None, 0, Some ''Video tidak memiliki frame.''), tmp, fs(tmp := None))
      else
        (case read_frame cap (min n (total_frames - 1)) of
           Inl e \<Rightarrow> (Inl e, tmp, fs(tmp \<mapsto> data))
         | Inr None \<Rightarrow>
             (Inr (None, total_frames, Some ''Gagal mengekstrak frame yang dipilih.''),
              tmp, fs(tmp := None))
         | Inr (Some frame) \<Rightarrow>
             (case to_image w frame of
                Inl e \<Rightarrow> (Inl e, tmp, fs(tmp := None))
              | Inr img \<Rightarrow> (Inr (Some img, total_frames, None), tmp, fs(tmp := None)))))"
  using assms unfolding extract_try_def Let_def
  by (simp add: unlink_return_existing os_unlink_existing split: sum.splits option.splits)

text \<open>
  Every value the \<open>try\<close> block returns has no image or no message and leaves no
  temporary file; an exception leaves it either before \<open>video_path\<close> is assigned or with
  \<open>video_path\<close> naming the temporary file.
\<close>

lemma extract_try_shape:
  "extract_try w video_file n fs = (out, video_path, fs') \<Longrightarrow>
     (case out of
        Inr (img, cnt, err) \<Rightarrow>
          (img = None \<or> err = None)
          \<and> (\<exists>tmp. NamedTemporaryFile w = Inr tmp \<and> fs' = fs(tmp := None))
      | Inl e \<Rightarrow>
          video_path = []
          \<or> (NamedTemporaryFile w = Inr video_path
              \<and> (fs' = fs(video_path := None)
                  \<or> (\<exists>data. getvalue video_file = Inr data \<and> fs' = fs(video_path \<mapsto> data)))))"
  unfolding extract_try_def Let_def
  by (auto split: sum.splits option.splits if_splits prod.splits
      simp: unlink_return_def os_unlink_def)

text \<open>Once the bytes are written, the temporary file is gone when the call returns.\<close>

lemma temp_file_removed_when_written:
  assumes "NamedTemporaryFile w = Inr tmp" "tmp \<noteq> []"
    "getvalue video_file = Inr data" "tmp_write w data = None"
  shows "snd (extract_frame_from_video w video_file n fs) = fs(tmp := None)"
  using assms unfolding extract_frame_from_video_def extract_try_def Let_def
  by (auto split: sum.splits option.splits if_splits prod.splits
      simp: unlink_return_def os_unlink_def os_path_exists_def)

text \<open>When the write raises, \<open>video_path\<close> is still empty in the handler and the file
  stays.\<close>

lemma temp_file_left_when_write_raises:
  assumes "NamedTemporaryFile w = Inr tmp"
    "getvalue video_file = Inl e \<or> (\<exists>data. getvalue video_file = Inr data \<and> tmp_write w data = Some e)"
  shows "extract_frame_from_video w video_file n fs =
           (Inr (None, 0, Some (''Error saat memproses video: '' @ str_exc e)),
            fs(tmp \<mapsto> []))"
  using assms unfolding extract_frame_from_video_def extract_try_def Let_def
  by auto

text \<open>
  C1, at the input where the code breaks it. The temporary file is created, the write
  of the uploaded bytes raises (the disk is full), the handler finds \<open>video_path\<close> still
  empty: the call returns its error triple and the temporary file is still there.
\<close>

theorem temp_file_leaked_on_failed_write:
  "extract_frame_from_video
     (world_of three_frames (Some (OtherException ''[Errno 28] No space left on device'')))
     sample_upload 0 Map.empty
   = (Inr (None, 0,
           Some ''Error saat memproses video: [Errno 28] No space left on device''),
      [''/tmp/tmpk3v9.mp4'' \<mapsto> []])
   \<and> os_path_exists ''/tmp/tmpk3v9.mp4''
        (snd (extract_frame_from_video
           (world_of three_frames (Some (OtherException ''[Errno 28] No space left on device'')))
           sample_upload 0 Map.empty))"
  by (simp add: extract_frame_from_video_def extract_try_def world_of_def sample_upload_def
      os_path_exists_def)

text \<open>
  C8. When the temporary file is written and the container opens but reports zero
  frames, the call returns no image, the count 0 and the message
  \<open>Video tidak memiliki frame.\<close>; it raises nothing, and the temporary file is gone.
\<close>

theorem zero_frame_video_is_reported:
  assumes "NamedTemporaryFile w = Inr tmp" "getvalue video_file = Inr data"
    "tmp_write w data = None" "VideoCapture w (Some data) = Inr cap" "isOpened cap" "frame_count cap = Inr 0"
  shows "extract_frame_from_video w video_file n fs =
           (Inr (None, 0, Some ''Video tidak memiliki frame.''), fs(tmp := None))"
  using extract_try_opened [OF assms, of n fs]
  by (simp add: extract_frame_from_video_def)

theorem zero_frame_video_is_reported_witness:
  "NamedTemporaryFile (world_of no_frames None) = Inr ''/tmp/tmpk3v9.mp4''
   \<and> getvalue sample_upload = Inr ''video bytes''
   \<and> tmp_write (world_of no_frames None) ''video bytes'' = None
   \<and> VideoCapture (world_of no_frames None) (Some ''video bytes'') = Inr no_frames
   \<and> isOpened no_frames
   \<and> frame_count no_frames = Inr 0
   \<and> extract_frame_from_video (world_of no_frames None) sample_upload 2 Map.empty =
        (Inr (None, 0, Some ''Video tidak memiliki frame.''), Map.empty)"
proof -
  have h: "NamedTemporaryFile (world_of no_frames None) = Inr ''/tmp/tmpk3v9.mp4''"
    "getvalue sample_upload = Inr ''video bytes''"
    "tmp_write (world_of no_frames None) ''video bytes'' = None"
    "VideoCapture (world_of no_frames None) (Some ''video bytes'') = Inr no_frames"
    "isOpened no_frames" "frame_count no_frames = Inr 0"
    by (simp_all add: world_of_def no_frames_def sample_upload_def)
  show ?thesis
    using h zero_frame_video_is_reported [OF h, of 2 Map.empty] by simp
qed

text \<open>
  C10. For every input and in all surroundings the call returns a triple of an image or
  nothing, a frame count and a message or nothing; no exception leaves it; and the
  triple never holds both an image and a message.
\<close>

theorem extract_frame_from_video_total:
  "\<exists>img cnt err.
     fst (extract_frame_from_video w video_file n fs) = Inr (img, cnt, err)
     \<and> (img = None \<or> err = None)"
proof -
  obtain out video_path fs' where t: "extract_try w video_file n fs = (out, video_path, fs')"
    by (cases "extract_try w video_file n fs") auto
  show ?thesis
  proof (cases out)
    case (Inl e)
    then show ?thesis
      using t
      by (auto simp: extract_frame_from_video_def Let_def os_path_exists_def os_unlink_def
          split: option.splits)
  next
    case (Inr r)
    then show ?thesis
      using t extract_try_shape [OF t]
      by (cases r) (auto simp: extract_frame_from_video_def)
  qed
qed

text \<open>
  C3. For a video that opens with \<open>total_frames \<ge> 1\<close> and a requested index \<open>n\<close>,
  the call returns what the decoder gives at position \<open>n\<close> clamped into
  \<open>[0, total_frames - 1]\<close>: position \<open>n\<close> itself when it is in range, and position
  \<open>total_frames - 1\<close> for every \<open>n \<ge> total_frames\<close>, which is that frame and no failure
  when the decoder delivers it. The callers pass \<open>0\<close> or a slider value, so \<open>0 \<le> n\<close>;
  the code itself bounds the index from above only, and an index below zero, which goes
  to the decoder as it is, is covered when the decoder answers it as position \<open>0\<close>.
\<close>

theorem frame_index_clamped:
  assumes "NamedTemporaryFile w = Inr tmp" "getvalue video_file = Inr data"
    "tmp_write w data = None" "VideoCapture w (Some data) = Inr cap" "isOpened cap"
    "frame_count cap = Inr total_frames"
    and "1 \<le> total_frames"
    and "0 \<le> n \<or> read_frame cap n = read_frame cap 0"
  shows "fst (extract_frame_from_video w video_file n fs) =
           (case read_frame cap
                   (if n < 0 then 0 else if n < total_frames then n else total_frames - 1) of
              Inl e \<Rightarrow> Inr (None, 0, Some (''Error saat memproses video: '' @ str_exc e))
            | Inr None \<Rightarrow>
                Inr (None, total_frames, Some ''Gagal mengekstrak frame yang dipilih.'')
            | Inr (Some frame) \<Rightarrow>
                (case to_image w frame of
                   Inl e \<Rightarrow> Inr (None, 0, Some (''Error saat memproses video: '' @ str_exc e))
                 | Inr img \<Rightarrow> Inr (Some img, total_frames, None)))
         \<and> 0 \<le> (if n < 0 then 0 else if n < total_frames then n else total_frames - 1)
         \<and> (if n < 0 then 0 else if n < total_frames then n else total_frames - 1)
             \<le> total_frames - 1"
proof -
  let ?k = "if n < 0 then 0 else if n < total_frames then n else total_frames - 1"
  have pos: "read_frame cap (min n (total_frames - 1)) = read_frame cap ?k"
    using assms(7,8) by (auto simp: min_def)
  have nonzero: "total_frames \<noteq> 0"
    using assms(7) by simp
  have body: "extract_try w video_file n fs =
        (case read_frame cap ?k of
           Inl e \<Rightarrow> (Inl e, tmp, fs(tmp \<mapsto> data))
         | Inr None \<Rightarrow>
             (Inr (None, total_frames, Some ''Gagal mengekstrak frame yang dipilih.''),
              tmp, fs(tmp := None))
         | Inr (Some frame) \<Rightarrow>
             (case to_image w frame of
                Inl e \<Rightarrow> (Inl e, tmp, fs(tmp := None))
              | Inr img \<Rightarrow> (Inr (Some img, total_frames, None), tmp, fs(tmp := None))))"
    using extract_try_opened [OF assms(1-6), of n fs] nonzero pos by simp
  have "fst (extract_frame_from_video w video_file n fs) =
           (case read_frame cap ?k of
              Inl e \<Rightarrow> Inr (None, 0, Some (''Error saat memproses video: '' @ str_exc e))
            | Inr None \<Rightarrow>
                Inr (None, total_frames, Some ''Gagal mengekstrak frame yang dipilih.'')
            | Inr (Some frame) \<Rightarrow>
                (case to_image w frame of
                   Inl e \<Rightarrow> Inr (None, 0, Some (''Error saat memproses video: '' @ str_exc e))
                 | Inr img \<Rightarrow> Inr (Some img, total_frames, None)))"
  proof (cases "read_frame cap ?k")
    case (Inl e)
    with body show ?thesis
      by (simp add: extract_frame_from_video_def Let_def os_path_exists_def os_unlink_def)
  next
    case (Inr r)
    show ?thesis
    proof (cases r)
      case None
      with body Inr show ?thesis
        by (simp add: extract_frame_from_video_def)
    next
      case (Some frame)
      with body Inr show ?thesis
        by (cases "to_image w frame")
           (simp_all add: extract_frame_from_video_def Let_def os_path_exists_def)
    qed
  qed
  moreover have "0 \<le> ?k" "?k \<le> total_frames - 1"
    using assms(7) by auto
  ultimately show ?thesis
    by blast
qed

text \<open>
  Runs of it on three frames numbered by position: a request for \<open>1\<close> returns frame
  \<open>1\<close>, a request for \<open>7\<close> returns frame \<open>2\<close>, and, with a decoder that answers a position below zero with the first frame, a
  request for \<open>-1\<close> returns frame \<open>0\<close>.
\<close>

theorem frame_index_clamped_witness:
  "NamedTemporaryFile (world_of three_frames None) = Inr ''/tmp/tmpk3v9.mp4''
   \<and> getvalue sample_upload = Inr ''video bytes''
   \<and> tmp_write (world_of three_frames None) ''video bytes'' = None
   \<and> VideoCapture (world_of three_frames None) (Some ''video bytes'') = Inr three_frames
   \<and> isOpened three_frames
   \<and> frame_count three_frames = Inr 3
   \<and> fst (extract_frame_from_video (world_of three_frames None) sample_upload 1 Map.empty) =
        Inr (Some 1, 3, None)
   \<and> fst (extract_frame_from_video (world_of three_frames None) sample_upload 7 Map.empty) =
        Inr (Some 2, 3, None)
   \<and> read_frame frames_from_zero (- 1) = read_frame frames_from_zero 0
   \<and> fst (extract_frame_from_video (world_of frames_from_zero None) sample_upload (- 1)
          Map.empty) = Inr (Some 0, 3, None)"
proof -
  have h: "NamedTemporaryFile (world_of three_frames None) = Inr ''/tmp/tmpk3v9.mp4''"
    "getvalue sample_upload = Inr ''video bytes''"
    "tmp_write (world_of three_frames None) ''video bytes'' = None"
    "VideoCapture (world_of three_frames None) (Some ''video bytes'') = Inr three_frames"
    "isOpened three_frames" "frame_count three_frames = Inr 3"
    by (simp_all add: world_of_def three_frames_def sample_upload_def)
  have g: "NamedTemporaryFile (world_of frames_from_zero None) = Inr ''/tmp/tmpk3v9.mp4''"
    "getvalue sample_upload = Inr ''video bytes''"
    "tmp_write (world_of frames_from_zero None) ''video bytes'' = None"
    "VideoCapture (world_of frames_from_zero None) (Some ''video bytes'') = Inr frames_from_zero"
    "isOpened frames_from_zero" "frame_count frames_from_zero = Inr 3"
    by (simp_all add: world_of_def frames_from_zero_def sample_upload_def)
  have one: "(1::int) \<le> 3"
    by simp
  have n7: "(0::int) \<le> 7 \<or> read_frame three_frames 7 = read_frame three_frames 0"
    by simp
  have below: "read_frame frames_from_zero (- 1) = read_frame frames_from_zero 0"
    by (simp add: frames_from_zero_def)
  then have n1: "(0::int) \<le> - 1 \<or> read_frame frames_from_zero (- 1) = read_frame frames_from_zero 0"
    by simp
  have n1': "(0::int) \<le> 1 \<or> read_frame three_frames 1 = read_frame three_frames 0"
    by simp
  have "fst (extract_frame_from_video (world_of three_frames None) sample_upload 1 Map.empty) =
        Inr (Some 1, 3, None)"
    using frame_index_clamped [OF h one n1', of Map.empty]
    by (simp add: three_frames_def world_of_def)
  moreover
  have "fst (extract_frame_from_video (world_of three_frames None) sample_upload 7 Map.empty) =
        Inr (Some 2, 3, None)"
    using frame_index_clamped [OF h one n7, of Map.empty]
    by (simp add: three_frames_def world_of_def)
  moreover
  have "fst (extract_frame_from_video (world_of frames_from_zero None) sample_upload (- 1)
          Map.empty) = Inr (Some 0, 3, None)"
    using frame_index_clamped [OF g one n1, of Map.empty]
    by (simp add: frames_from_zero_def world_of_def)
  ultimately show ?thesis
    using h below by simp
qed


section \<open>The threshold is passed through\<close>






end
